theory Spec2Isabelle
  imports Complex_Main
begin

section \<open>Data model\<close>

text \<open>
  The indices engine of the indoor simulation server: \<^verbatim>\<open>utils/indices.js\<close> (the revision
  whose \<^verbatim>\<open>computeIndices\<close> guards missing fields and wraps its body in
  \<^verbatim>\<open>try/catch\<close>) and the history buffer of \<^verbatim>\<open>server.js\<close>.

  JavaScript numbers are modelled as real numbers, so the model computes in exact
  arithmetic: the rounding, the overflow to \<^verbatim>\<open>Infinity\<close> and the \<^verbatim>\<open>NaN\<close> of
  IEEE-754 doubles are not part of it. The theorems are therefore kept to what the code
  computes as written, whatever the arithmetic: the branch a guard takes, the formula
  that combines the constants of one call, the contents of the history buffer; and, for
  the correlation of a series with itself, to inputs bounded so that no sum of the
  computation leaves the range of the doubles. Nothing is claimed here about values that
  depend on overflow or on the last bit of a rounding. A measure that is
  \<^verbatim>\<open>null\<close> or \<^verbatim>\<open>undefined\<close> is \<open>None\<close>.
\<close>

record snapshot =
  co2 :: "real option"
  no2 :: "real option"
  nh3 :: "real option"
  co :: "real option"
  temp :: "real option"
  rh :: "real option"
  pres :: "real option"

text \<open>
  A history entry is the object \<^verbatim>\<open>{timestamp, measures}\<close>. An object that has no
  \<^verbatim>\<open>measures\<close> property is \<open>measures = None\<close>: reading \<^verbatim>\<open>s.measures.co2\<close>
  from it throws a TypeError.
\<close>

record entry =
  timestamp :: string
  measures :: "snapshot option"


section \<open>Failures as values\<close>

text \<open>
  \<open>TypeError\<close> is the exception thrown by a property read on \<^verbatim>\<open>undefined\<close>.
  \<open>NotFinite\<close> is not an exception: it marks a computation in which a value stopped
  being a finite number (a division by zero or the square root of a negative number,
  which give \<^verbatim>\<open>NaN\<close> or \<^verbatim>\<open>Infinity\<close>); the model does not follow such a
  computation further.
\<close>

datatype fault = TypeError | NotFinite

fun and_then :: "fault + 'a \<Rightarrow> ('a \<Rightarrow> fault + 'b) \<Rightarrow> fault + 'b" where
  "and_then (Inl f) k = Inl f"
| "and_then (Inr v) k = k v"

definition js_div :: "real \<Rightarrow> real \<Rightarrow> fault + real" where
  "js_div x y = (if y = 0 then Inl NotFinite else Inr (x / y))"


section \<open>Statistics library\<close>





section \<open>History buffer\<close>

text \<open>
  \<^verbatim>\<open>
  const HISTORY_SECONDS = 60 * 30;
  const history = [];
  function pushHistory(meas) {
    history.push(meas);
    if (history.length > HISTORY_SECONDS) history.shift();
  }
  \<close>
  The later revision of the server keeps \<^verbatim>\<open>HISTORY_MAX = 60 * 60\<close> entries and builds
  the entry itself, from the clock and a copy of the measures:
  \<^verbatim>\<open>
  function pushHistory(measures) {
    history.push({ timestamp: new Date().toISOString(), measures: { ...measures } });
    if (history.length > HISTORY_MAX) history.shift();
  }
  \<close>
  The module-level array is passed in and returned; the capacity is a parameter, which
  the two revisions instantiate. A single \<^verbatim>\<open>shift()\<close> removes one entry.
\<close>

definition HISTORY_SECONDS :: nat where
  "HISTORY_SECONDS = 60 * 30"

definition HISTORY_MAX :: nat where
  "HISTORY_MAX = 60 * 60"

definition pushHistory :: "nat \<Rightarrow> entry list \<Rightarrow> entry \<Rightarrow> entry list" where
  "pushHistory cap history meas =
     (let h = history @ [meas] in if length h > cap then tl h else h)"

definition pushHistory_now :: "string \<Rightarrow> entry list \<Rightarrow> snapshot \<Rightarrow> entry list" where
  "pushHistory_now now history m =
     pushHistory HISTORY_MAX history \<lparr>timestamp = now, measures = Some m\<rparr>"

section \<open>Indices engine\<close>

text \<open>
  \<^verbatim>\<open>function clamp(v,min=0,max=100){ return Math.max(min, Math.min(max, v)); }\<close>
\<close>

definition clamp :: "real \<Rightarrow> real \<Rightarrow> real \<Rightarrow> real" where
  "clamp v lo hi = max lo (min hi v)"


subsection \<open>AQL\<close>

text \<open>
  \<^verbatim>\<open>
  const th = { co2: [600, 2000], no2: [40, 200], nh3: [0.01, 0.1], co: [0.5, 10] };
  function pollutantPenalty(x, good, bad) {
    if (x == null) return 0;
    if (x <= good) return 0;
    const p = (x - good) / (bad - good);
    return clamp(p * 100, 0, 100);
  }
  const weightsPoll = { co2:0.5, no2:0.25, nh3:0.15, co:0.10 };
  const AQ_penalty = p_co2*weightsPoll.co2 + p_no2*weightsPoll.no2
                   + p_nh3*weightsPoll.nh3 + p_co*weightsPoll.co;
  \<close>
  The keys \<^verbatim>\<open>'co2'\<close>, \<^verbatim>\<open>'no2'\<close>, \<^verbatim>\<open>'nh3'\<close>, \<^verbatim>\<open>'co'\<close> of the tables are the
  datatype \<open>gas\<close>; \<open>reading k m\<close> is \<^verbatim>\<open>m[k]\<close>.
\<close>

datatype gas = Gas_co2 | Gas_no2 | Gas_nh3 | Gas_co

fun reading :: "gas \<Rightarrow> snapshot \<Rightarrow> real option" where
  "reading Gas_co2 m = co2 m"
| "reading Gas_no2 m = no2 m"
| "reading Gas_nh3 m = nh3 m"
| "reading Gas_co m = co m"

fun th :: "gas \<Rightarrow> real \<times> real" where
  "th Gas_co2 = (600, 2000)"
| "th Gas_no2 = (40, 200)"
| "th Gas_nh3 = (0.01, 0.1)"
| "th Gas_co = (0.5, 10)"


definition pollutantPenalty :: "real option \<Rightarrow> real \<Rightarrow> real \<Rightarrow> fault + real" where
  "pollutantPenalty x good bad =
     (case x of
        None \<Rightarrow> Inr 0
      | Some x \<Rightarrow>
          if x \<le> good then Inr 0
          else and_then (js_div (x - good) (bad - good)) (\<lambda>p. Inr (clamp (p * 100) 0 100)))"

definition gas_penalty :: "snapshot \<Rightarrow> gas \<Rightarrow> fault + real" where
  "gas_penalty state k = pollutantPenalty (reading k state) (fst (th k)) (snd (th k))"


subsection \<open>TCI\<close>




subsection \<open>Series of a window\<close>

text \<open>
  \<^verbatim>\<open>lastWindow.slice(-k)\<close> keeps the last \<open>k\<close> entries (all when there are fewer).
  \<^verbatim>\<open>xs.map(s => s.measures[k])\<close> throws at the first entry without \<^verbatim>\<open>measures\<close>.
  \<^verbatim>\<open>.filter(x => x != null)\<close> keeps the present values, in order.
\<close>

definition slice_last :: "nat \<Rightarrow> 'a list \<Rightarrow> 'a list" where
  "slice_last k xs = drop (length xs - k) xs"





subsection \<open>SRI\<close>



subsection \<open>GEI\<close>



subsection \<open>GAQI and the result\<close>






section \<open>Reference notions\<close>




section \<open>Sample inputs\<close>



section \<open>Properties of the statistics library\<close>














section \<open>Properties of the history buffer\<close>

lemma pushHistory_slice:
  "pushHistory cap (slice_last cap ys) x = slice_last cap (ys @ [x])"
proof (cases "cap \<le> length ys")
  case True
  then have "length (drop (length ys - cap) ys @ [x]) = Suc cap" by simp
  then have "pushHistory cap (slice_last cap ys) x = tl (drop (length ys - cap) ys @ [x])"
    by (simp add: pushHistory_def slice_last_def Let_def)
  also have "\<dots> = drop (Suc (length ys - cap)) (ys @ [x])"
  proof (cases "cap = 0")
    case True
    then show ?thesis by simp
  next
    case False
    with \<open>cap \<le> length ys\<close> have "drop (length ys - cap) ys \<noteq> []" by simp
    then have "tl (drop (length ys - cap) ys @ [x]) = tl (drop (length ys - cap) ys) @ [x]"
      by simp
    also have "\<dots> = drop (Suc (length ys - cap)) (ys @ [x])"
      using False \<open>cap \<le> length ys\<close> by (simp add: tl_drop drop_Suc)
    finally show ?thesis .
  qed
  also have "\<dots> = slice_last cap (ys @ [x])"
    using True by (simp add: slice_last_def Suc_diff_le)
  finally show ?thesis .
next
  case False
  then show ?thesis by (simp add: pushHistory_def slice_last_def Let_def)
qed

lemma foldl_pushHistory:
  "foldl (pushHistory cap) [] xs = slice_last cap xs"
proof (induction xs rule: rev_induct)
  case Nil
  show ?case by (simp add: slice_last_def)
next
  case (snoc x xs)
  then show ?case by (simp add: pushHistory_slice)
qed

text \<open>
  Claim C6. Starting from the empty history, after any sequence of appends the buffer
  holds at most \<open>cap\<close> entries; an append to a buffer within its capacity keeps it
  within its capacity, adds the entry at the end and, when the buffer was full, drops
  the entry at the front. After \<open>cap + 1\<close> appends (for a positive capacity, as both
  constants of the server are) the buffer is the appended sequence without its first
  entry: the newest entry is in it and, the entries being distinct, the oldest is not.
\<close>

theorem history_bounded:
  "length (foldl (pushHistory cap) [] xs) \<le> cap \<and>
   (length h \<le> cap \<longrightarrow> length (pushHistory cap h x) \<le> cap) \<and>
   (length h < cap \<longrightarrow> pushHistory cap h x = h @ [x]) \<and>
   (length h = cap \<and> 0 < cap \<longrightarrow> pushHistory cap h x = tl h @ [x]) \<and>
   (length h \<le> HISTORY_MAX \<longrightarrow> length (pushHistory_now now h m) \<le> HISTORY_MAX) \<and>
   0 < HISTORY_SECONDS \<and> 0 < HISTORY_MAX \<and>
   (0 < cap \<and> length xs = cap + 1 \<longrightarrow>
      foldl (pushHistory cap) [] xs = tl xs \<and>
      last xs \<in> set (foldl (pushHistory cap) [] xs) \<and>
      (distinct xs \<longrightarrow> hd xs \<notin> set (foldl (pushHistory cap) [] xs)))"
proof (intro conjI impI)
  show "length (foldl (pushHistory cap) [] xs) \<le> cap"
    by (simp add: foldl_pushHistory slice_last_def)
  show "length (pushHistory cap h x) \<le> cap" if "length h \<le> cap"
    using that by (simp add: pushHistory_def Let_def)
  show "pushHistory cap h x = h @ [x]" if "length h < cap"
    using that by (simp add: pushHistory_def Let_def)
  show "pushHistory cap h x = tl h @ [x]" if "length h = cap \<and> 0 < cap"
  proof -
    from that have "h \<noteq> []" by auto
    with that show ?thesis by (simp add: pushHistory_def Let_def)
  qed
  show "length (pushHistory_now now h m) \<le> HISTORY_MAX" if "length h \<le> HISTORY_MAX"
    using that by (simp add: pushHistory_now_def pushHistory_def Let_def)
  show "0 < HISTORY_SECONDS" by (simp add: HISTORY_SECONDS_def)
  show "0 < HISTORY_MAX" by (simp add: HISTORY_MAX_def)
next
  assume h: "0 < cap \<and> length xs = cap + 1"
  then have eq: "foldl (pushHistory cap) [] xs = tl xs"
    by (simp add: foldl_pushHistory slice_last_def drop_Suc)
  show "foldl (pushHistory cap) [] xs = tl xs" by (rule eq)
  from h obtain y ys where xs: "xs = y # ys" and ys: "ys \<noteq> []"
    by (cases xs) auto
  show "last xs \<in> set (foldl (pushHistory cap) [] xs)"
    unfolding eq using xs ys by simp
  show "hd xs \<notin> set (foldl (pushHistory cap) [] xs)" if "distinct xs"
    unfolding eq using that xs by simp
qed

text \<open>
  Three appends to a buffer of capacity 2, an append below capacity, an append to a
  full buffer of capacity 1, and the first append of the later revision.
\<close>

theorem history_bounded_witness:
  "foldl (pushHistory 2) []
     [\<lparr>timestamp = ''t0'', measures = None\<rparr>, \<lparr>timestamp = ''t1'', measures = None\<rparr>,
      \<lparr>timestamp = ''t2'', measures = None\<rparr>]
   = [\<lparr>timestamp = ''t1'', measures = None\<rparr>, \<lparr>timestamp = ''t2'', measures = None\<rparr>] \<and>
   pushHistory 2 [\<lparr>timestamp = ''t0'', measures = None\<rparr>] \<lparr>timestamp = ''t1'', measures = None\<rparr>
   = [\<lparr>timestamp = ''t0'', measures = None\<rparr>, \<lparr>timestamp = ''t1'', measures = None\<rparr>] \<and>
   pushHistory 1 [\<lparr>timestamp = ''t0'', measures = None\<rparr>] \<lparr>timestamp = ''t1'', measures = None\<rparr>
   = [\<lparr>timestamp = ''t1'', measures = None\<rparr>] \<and>
   length (pushHistory_now ''t0'' [] \<lparr>co2 = None, no2 = None, nh3 = None, co = None,
      temp = None, rh = None, pres = None\<rparr>) \<le> HISTORY_MAX"
  using history_bounded[of 2
     "[\<lparr>timestamp = ''t0'', measures = None\<rparr>, \<lparr>timestamp = ''t1'', measures = None\<rparr>,
       \<lparr>timestamp = ''t2'', measures = None\<rparr>]"
     "[\<lparr>timestamp = ''t0'', measures = None\<rparr>]" "\<lparr>timestamp = ''t1'', measures = None\<rparr>"
     "''t0''" "\<lparr>co2 = None, no2 = None, nh3 = None, co = None,
      temp = None, rh = None, pres = None\<rparr>"]
    history_bounded[of 1 "[]" "[\<lparr>timestamp = ''t0'', measures = None\<rparr>]"
       "\<lparr>timestamp = ''t1'', measures = None\<rparr>"]
    history_bounded[of HISTORY_MAX "[]" "[]" _ "''t0''" "\<lparr>co2 = None, no2 = None, nh3 = None, co = None,
      temp = None, rh = None, pres = None\<rparr>"]
  by simp

section \<open>Properties of the indices engine\<close>


lemma th_ordered: "fst (th k) < snd (th k)"
  by (cases k) simp_all

lemma pollutantPenalty_value:
  assumes "good < bad"
  shows "pollutantPenalty x good bad =
    Inr (case x of None \<Rightarrow> 0
         | Some v \<Rightarrow> if v \<le> good then 0 else clamp ((v - good) / (bad - good) * 100) 0 100)"
  using assms by (simp add: pollutantPenalty_def js_div_def split: option.split)

















text \<open>
  Claim C3. For each gas \<open>k\<close> with thresholds \<open>th k = (g, b)\<close> (co2 600/2000, no2
  40/200, nh3 0.01/0.1, co 0.5/10), the penalty of a reading is 0 when the reading is
  missing or at most \<open>g\<close>, is \<open>100 (x - g) / (b - g)\<close> strictly between the thresholds,
  and is exactly 100 from \<open>b\<close> on; this is the penalty \<open>computeIndices\<close> uses for \<open>k\<close>.
\<close>

theorem pollutant_penalty_piecewise:
  assumes "th k = (g, b)"
  shows "pollutantPenalty None g b = Inr 0 \<and>
    (x \<le> g \<longrightarrow> pollutantPenalty (Some x) g b = Inr 0) \<and>
    (g < x \<and> x < b \<longrightarrow> pollutantPenalty (Some x) g b = Inr (100 * (x - g) / (b - g))) \<and>
    (b \<le> x \<longrightarrow> pollutantPenalty (Some x) g b = Inr 100) \<and>
    gas_penalty state k = pollutantPenalty (reading k state) g b"
proof -
  have gb: "g < b" using th_ordered[of k] assms by simp
  have mid: "clamp ((x - g) / (b - g) * 100) 0 100 = 100 * (x - g) / (b - g)" if "g < x" "x < b"
  proof -
    define p where "p = (x - g) / (b - g)"
    have "0 \<le> p" "p \<le> 1" using that gb by (simp_all add: p_def)
    then have "clamp (p * 100) 0 100 = 100 * p" by (simp add: clamp_def)
    then show ?thesis by (simp only: p_def times_divide_eq_right)
  qed
  have top: "clamp ((x - g) / (b - g) * 100) 0 100 = 100" if "b \<le> x"
  proof -
    define p where "p = (x - g) / (b - g)"
    have "1 \<le> p" using that gb by (simp add: p_def)
    then have "clamp (p * 100) 0 100 = 100" by (simp add: clamp_def)
    then show ?thesis by (simp only: p_def)
  qed
  show ?thesis
    using gb mid top assms by (auto simp: pollutantPenalty_value gas_penalty_def)
qed












text \<open>
  The penalty of co2 at 500, 1300 and 2500 ppm and of a missing reading.
\<close>

theorem pollutant_penalty_piecewise_witness:
  "th Gas_co2 = (600, 2000) \<and> pollutantPenalty None 600 2000 = Inr 0 \<and>
   pollutantPenalty (Some 500) 600 2000 = Inr 0 \<and>
   pollutantPenalty (Some 1300) 600 2000 = Inr 50 \<and>
   pollutantPenalty (Some 2500) 600 2000 = Inr 100"
  using pollutant_penalty_piecewise[of Gas_co2 600 2000 500]
    pollutant_penalty_piecewise[of Gas_co2 600 2000 1300]
    pollutant_penalty_piecewise[of Gas_co2 600 2000 2500]
  by simp



end
